theory Spec2Isabelle
  imports Main
begin

section \<open>Documents and collections\<close>

text \<open>
  Identifiers are the strings the handlers compare: \<^verbatim>\<open>req.user.id\<close>, \<^verbatim>\<open>req.params.id\<close> and
  \<^verbatim>\<open>doc._id.toString()\<close>. Roles are stored and compared as strings
  (\<^verbatim>\<open>'admin'\<close>, \<^verbatim>\<open>'author'\<close>, \<^verbatim>\<open>'reader'\<close>).
\<close>

type_synonym objectId = string

text \<open>
  Modelled from the spec: the schemas \<^verbatim>\<open>models/User\<close> and \<^verbatim>\<open>models/Post\<close> are not among the
  source files. The records carry the fields the spec's data model lists and the handlers
  read and write: a user has \<^verbatim>\<open>_id\<close>, \<^verbatim>\<open>name\<close>, \<^verbatim>\<open>email\<close>, \<^verbatim>\<open>password\<close>, \<^verbatim>\<open>role\<close>; a post has
  \<^verbatim>\<open>_id\<close>, \<^verbatim>\<open>title\<close>, \<^verbatim>\<open>content\<close>, \<^verbatim>\<open>author\<close> and the embedded \<^verbatim>\<open>comments\<close>, each with \<^verbatim>\<open>_id\<close>,
  \<^verbatim>\<open>user\<close> and \<^verbatim>\<open>comment\<close>.
\<close>

record user_doc =
  user_id :: objectId
  name :: string
  email :: string
  password :: string
  role :: string

record comment_doc =
  comment_id :: objectId
  user :: objectId
  comment :: string

record post_doc =
  post_id :: objectId
  title :: string
  content :: string
  author :: objectId
  comments :: "comment_doc list"

text \<open>\<^verbatim>\<open>req.user\<close>, as the token middleware sets it: the id and the role of the token's payload.\<close>

record req_user =
  req_id :: objectId
  req_role :: string

text \<open>
  A field of a JSON request body, as far as the handlers look at it: absent, \<^verbatim>\<open>null\<close>, or a
  string. \<^verbatim>\<open>a || b\<close> yields \<^verbatim>\<open>a\<close> when \<^verbatim>\<open>a\<close> is truthy and \<^verbatim>\<open>b\<close> otherwise; \<^verbatim>\<open>undefined\<close>, \<^verbatim>\<open>null\<close> and
  the empty string are falsy.
\<close>

datatype jsval = JUndefined | JNull | JString string

fun truthy :: "jsval \<Rightarrow> bool" where
  "truthy (JString s) = (s \<noteq> [])"
| "truthy JUndefined = False"
| "truthy JNull = False"

fun js_or :: "jsval \<Rightarrow> string \<Rightarrow> string" where
  "js_or (JString s) d = (if truthy (JString s) then s else d)"
| "js_or JUndefined d = d"
| "js_or JNull d = d"

text \<open>Responses: the status code and the JSON body the handler sends.\<close>

datatype json =
    Message string
  | UserJson objectId string string string
  | RoleUpdatedJson string json
  | PostJson post_doc
  | DeleteDeniedJson string objectId objectId string

datatype response = Response (status: nat) (body: json)

subsection \<open>The queries of the object-document mapper\<close>

text \<open>
  A collection is the list of its documents in insertion order. \<^verbatim>\<open>findById\<close> and \<^verbatim>\<open>findOne\<close>
  return the first match or \<^verbatim>\<open>null\<close>; \<^verbatim>\<open>countDocuments\<close> counts the matches; \<^verbatim>\<open>save\<close> writes a
  loaded document back under its \<^verbatim>\<open>_id\<close>; \<^verbatim>\<open>create\<close> appends; \<^verbatim>\<open>findByIdAndDelete\<close> removes the
  first match and returns it. A collection here always answers: a store failure raises in
  the source and is answered 500 by the handler's \<^verbatim>\<open>catch\<close>; that path is outside the model.

  The mapper casts the identifier of a lookup before it queries. A stored \<^verbatim>\<open>_id\<close> is spelled by
  \<^verbatim>\<open>toString()\<close> as 24 lower-case hexadecimal digits (\<open>wellFormedId\<close>); the cast of an
  identifier in that spelling is the identifier itself, so the lookup by string equality
  below is the mapper's. An identifier the mapper cannot cast raises in the source (answered
  500 by the handler's \<^verbatim>\<open>catch\<close>), and an identifier in another spelling of a stored one is
  found by the mapper: on those two kinds of identifier a lookup that answers \<open>None\<close> below
  says nothing of the source, and no statement of this theory relies on it there.
\<close>

definition hexDigits :: string where
  "hexDigits = ''0123456789abcdef''"

definition wellFormedId :: "objectId \<Rightarrow> bool" where
  "wellFormedId i = (length i = 24 \<and> list_all (\<lambda>c. c \<in> set hexDigits) i)"

definition findById :: "user_doc list \<Rightarrow> objectId \<Rightarrow> user_doc option" where
  "findById users i = find (\<lambda>u. user_id u = i) users"

definition findOne_email :: "user_doc list \<Rightarrow> string \<Rightarrow> user_doc option" where
  "findOne_email users e = find (\<lambda>u. email u = e) users"

definition countDocuments :: "user_doc list \<Rightarrow> nat" where
  "countDocuments users = length users"

definition countDocuments_role :: "user_doc list \<Rightarrow> string \<Rightarrow> nat" where
  "countDocuments_role users r = length (filter (\<lambda>u. role u = r) users)"

definition save :: "user_doc list \<Rightarrow> user_doc \<Rightarrow> user_doc list" where
  "save users d = map (\<lambda>u. if user_id u = user_id d then d else u) users"

definition create :: "user_doc list \<Rightarrow> user_doc \<Rightarrow> user_doc list" where
  "create users d = users @ [d]"

definition findByIdAndDelete :: "user_doc list \<Rightarrow> objectId \<Rightarrow> user_doc option \<times> user_doc list" where
  "findByIdAndDelete users i =
     (case findById users i of
        None \<Rightarrow> (None, users)
      | Some d \<Rightarrow> (Some d, remove1 d users))"

definition Post_findById :: "post_doc list \<Rightarrow> objectId \<Rightarrow> post_doc option" where
  "Post_findById posts i = find (\<lambda>p. post_id p = i) posts"

definition Post_save :: "post_doc list \<Rightarrow> post_doc \<Rightarrow> post_doc list" where
  "Post_save posts d = map (\<lambda>p. if post_id p = post_id d then d else p) posts"

definition Post_create :: "post_doc list \<Rightarrow> post_doc \<Rightarrow> post_doc list" where
  "Post_create posts d = posts @ [d]"

definition Post_findByIdAndDelete :: "post_doc list \<Rightarrow> objectId \<Rightarrow> post_doc option \<times> post_doc list" where
  "Post_findByIdAndDelete posts i =
     (case Post_findById posts i of
        None \<Rightarrow> (None, posts)
      | Some d \<Rightarrow> (Some d, remove1 d posts))"

text \<open>\<^verbatim>\<open>post.comments.id(commentId)\<close> and \<^verbatim>\<open>comment.deleteOne()\<close> on the embedded array.\<close>

definition comments_id :: "comment_doc list \<Rightarrow> objectId \<Rightarrow> comment_doc option" where
  "comments_id cs i = find (\<lambda>c. comment_id c = i) cs"

definition deleteOne :: "comment_doc list \<Rightarrow> comment_doc \<Rightarrow> comment_doc list" where
  "deleteOne cs c = filter (\<lambda>x. comment_id x \<noteq> comment_id c) cs"

section \<open>The user controller\<close>

text \<open>
  The routes run the token check and the role filter \<^verbatim>\<open>authorizeRoles\<close> (which is not among
  the sources) before a handler; the definitions below are the handlers, on the request the
  two have let through. \<open>reqUser\<close> is \<^verbatim>\<open>req.user\<close>, \<open>i\<close> the id of the route.
\<close>

text \<open>The denials of the role update, under the names the specification gives them.\<close>

definition UserNotFound :: response where
  "UserNotFound = Response 404 (Message ''User not found'')"

definition PrivilegeRevoked :: response where
  "PrivilegeRevoked = Response 403 (Message ''You no longer have admin privileges'')"

definition SelfModificationForbidden :: response where
  "SelfModificationForbidden =
     Response 403 (Message ''Cannot modify your own role for security reasons'')"

definition InvalidRole :: response where
  "InvalidRole = Response 400 (Message ''Invalid role'')"

definition LastAdminProtection :: response where
  "LastAdminProtection =
     Response 403 (Message ''Cannot change role: System requires at least one admin'')"

definition AdminCeilingReached :: response where
  "AdminCeilingReached =
     Response 403 (Message ''Maximum number of admins (5) already reached'')"

definition validRoles :: "string list" where
  "validRoles = [''admin'', ''author'', ''reader'']"

definition userJson :: "user_doc \<Rightarrow> json" where
  "userJson u = UserJson (user_id u) (name u) (email u) (role u)"

text \<open>
  \<^verbatim>\<open>registerUser\<close>. The password is hashed by the model's pre-save hook, which is not among
  the sources: \<open>hash\<close> stands for it. \<open>newId\<close> is the \<^verbatim>\<open>_id\<close> the store gives the new document.
\<close>

definition registerUser ::
  "(string \<Rightarrow> string) \<Rightarrow> user_doc list \<Rightarrow> string \<Rightarrow> string \<Rightarrow> string \<Rightarrow> objectId
     \<Rightarrow> response \<times> user_doc list" where
  "registerUser hash users nm em pw newId =
     (case findOne_email users em of
        Some userExists \<Rightarrow> (Response 400 (Message ''User already exists''), users)
      | None \<Rightarrow>
          let userCount = countDocuments users;
              r = (if userCount = 0 then ''admin'' else ''reader'');
              u = \<lparr>user_id = newId, name = nm, email = em, password = hash pw, role = r\<rparr>
          in (Response 201 (userJson u), create users u))"

text \<open>
  \<^verbatim>\<open>updateUserRole\<close>, steps 1 to 7 in the handler's order. \<open>adminCount\<close> is what
  \<^verbatim>\<open>User.countDocuments({ role: 'admin' })\<close> answers: the handler takes the count in a query of
  its own, after the two lookups (steps 5 and 6 exclude each other, so at most one of the
  two counts is taken).
\<close>

definition updateUserRole_with ::
  "nat \<Rightarrow> user_doc list \<Rightarrow> req_user \<Rightarrow> objectId \<Rightarrow> jsval \<Rightarrow> response \<times> user_doc list" where
  "updateUserRole_with adminCount users reqUser i body_role =
     (case findById users i of
        None \<Rightarrow> (UserNotFound, users)
      | Some userToUpdate \<Rightarrow>
          if (case findById users (req_id reqUser) of
                None \<Rightarrow> True
              | Some currentUser \<Rightarrow> role currentUser \<noteq> ''admin'')
          then (PrivilegeRevoked, users)
          else if req_id reqUser = user_id userToUpdate
          then (SelfModificationForbidden, users)
          else (case body_role of
                  JUndefined \<Rightarrow> (InvalidRole, users)
                | JNull \<Rightarrow> (InvalidRole, users)
                | JString r \<Rightarrow>
                    if r \<notin> set validRoles then (InvalidRole, users)
                    else if role userToUpdate = ''admin'' \<and> r \<noteq> ''admin'' \<and> adminCount \<le> 1
                    then (LastAdminProtection, users)
                    else if r = ''admin'' \<and> role userToUpdate \<noteq> ''admin'' \<and> 5 \<le> adminCount
                    then (AdminCeilingReached, users)
                    else let updated = userToUpdate\<lparr>role := r\<rparr>
                         in (Response 200
                               (RoleUpdatedJson ''User role updated successfully'' (userJson updated)),
                             save users updated)))"

text \<open>The handler on one collection: the count is taken from the collection the lookups read.\<close>

definition updateUserRole ::
  "user_doc list \<Rightarrow> req_user \<Rightarrow> objectId \<Rightarrow> jsval \<Rightarrow> response \<times> user_doc list" where
  "updateUserRole users reqUser i body_role =
     updateUserRole_with (countDocuments_role users ''admin'') users reqUser i body_role"

definition deleteUser :: "user_doc list \<Rightarrow> objectId \<Rightarrow> response \<times> user_doc list" where
  "deleteUser users i =
     (case findByIdAndDelete users i of
        (None, users') \<Rightarrow> (UserNotFound, users')
      | (Some u, users') \<Rightarrow> (Response 200 (Message ''User deleted successfully''), users'))"

section \<open>The post controller\<close>

definition PostNotFound :: response where
  "PostNotFound = Response 404 (Message ''Post not found'')"

definition createPost ::
  "post_doc list \<Rightarrow> req_user \<Rightarrow> string \<Rightarrow> string \<Rightarrow> objectId \<Rightarrow> response \<times> post_doc list" where
  "createPost posts reqUser t c newId =
     (let post = \<lparr>post_id = newId, title = t, content = c, author = req_id reqUser, comments = []\<rparr>
      in (Response 201 (PostJson post), Post_create posts post))"

definition updatePost ::
  "post_doc list \<Rightarrow> req_user \<Rightarrow> objectId \<Rightarrow> jsval \<Rightarrow> jsval \<Rightarrow> response \<times> post_doc list" where
  "updatePost posts reqUser i t c =
     (case Post_findById posts i of
        None \<Rightarrow> (PostNotFound, posts)
      | Some post \<Rightarrow>
          if author post \<noteq> req_id reqUser \<and> req_role reqUser \<noteq> ''admin''
          then (Response 403 (Message ''Access denied''), posts)
          else let post' = post\<lparr>title := js_or t (title post), content := js_or c (content post)\<rparr>
               in (Response 200 (PostJson post'), Post_save posts post'))"

definition deletePost ::
  "post_doc list \<Rightarrow> req_user \<Rightarrow> objectId \<Rightarrow> response \<times> post_doc list" where
  "deletePost posts reqUser i =
     (case Post_findById posts i of
        None \<Rightarrow> (PostNotFound, posts)
      | Some post \<Rightarrow>
          let postAuthorId = author post; requestUserId = req_id reqUser in
          if postAuthorId \<noteq> requestUserId \<and> req_role reqUser \<noteq> ''admin''
          then (Response 403
                  (DeleteDeniedJson ''Access denied: You are not authorized to delete this post''
                     postAuthorId requestUserId (req_role reqUser)),
                posts)
          else (case Post_findByIdAndDelete posts i of
                  (None, posts') \<Rightarrow> (Response 404 (Message ''Post could not be deleted''), posts')
                | (Some deletedPost, posts') \<Rightarrow>
                    (Response 200 (Message ''Post deleted successfully''), posts')))"

definition addComment ::
  "post_doc list \<Rightarrow> req_user \<Rightarrow> objectId \<Rightarrow> string \<Rightarrow> objectId \<Rightarrow> response \<times> post_doc list" where
  "addComment posts reqUser i text newId =
     (case Post_findById posts i of
        None \<Rightarrow> (PostNotFound, posts)
      | Some post \<Rightarrow>
          let post' = post\<lparr>comments := comments post @
                        [\<lparr>comment_id = newId, user = req_id reqUser, comment = text\<rparr>]\<rparr>
          in (Response 201 (PostJson post'), Post_save posts post'))"

definition deleteComment ::
  "post_doc list \<Rightarrow> req_user \<Rightarrow> objectId \<Rightarrow> objectId \<Rightarrow> response \<times> post_doc list" where
  "deleteComment posts reqUser postId commentId =
     (case Post_findById posts postId of
        None \<Rightarrow> (PostNotFound, posts)
      | Some post \<Rightarrow>
          (case comments_id (comments post) commentId of
             None \<Rightarrow> (Response 404 (Message ''Comment not found''), posts)
           | Some c \<Rightarrow>
               let isAdmin = (req_role reqUser = ''admin'');
                   isPostAuthor = (author post = req_id reqUser);
                   isCommentOwner = (user c = req_id reqUser)
               in if \<not> isAdmin \<and> \<not> isPostAuthor \<and> \<not> isCommentOwner
                  then (Response 403
                          (Message ''Access denied: You are not authorized to delete this comment''),
                        posts)
                  else (Response 200 (Message ''Comment deleted successfully''),
                        Post_save posts (post\<lparr>comments := deleteOne (comments post) c\<rparr>))))"

section \<open>Example collections\<close>

definition ann :: user_doc where
  "ann = \<lparr>user_id = ''u1'', name = ''Ann'', email = ''ann@x.org'', password = ''#1'',
           role = ''admin''\<rparr>"

definition bob :: user_doc where
  "bob = \<lparr>user_id = ''u2'', name = ''Bob'', email = ''bob@x.org'', password = ''#2'',
           role = ''reader''\<rparr>"

definition cat :: user_doc where
  "cat = \<lparr>user_id = ''u3'', name = ''Cat'', email = ''cat@x.org'', password = ''#3'',
           role = ''admin''\<rparr>"

definition five_admins :: "user_doc list" where
  "five_admins =
     map (\<lambda>i. \<lparr>user_id = i, name = ''Admin'', email = i @ ''@x.org'', password = ''#'',
                role = ''admin''\<rparr>)
       [''a1'', ''a2'', ''a3'', ''a4'', ''a5'']"

text \<open>Documents under identifiers as the store spells them, and two identifiers of no document.\<close>

definition dan :: user_doc where
  "dan = \<lparr>user_id = ''64b7f0c2a1d3e4f5a6b7c8d1'', name = ''Dan'', email = ''dan@x.org'',
           password = ''#4'', role = ''admin''\<rparr>"

definition eve :: user_doc where
  "eve = \<lparr>user_id = ''64b7f0c2a1d3e4f5a6b7c8d2'', name = ''Eve'', email = ''eve@x.org'',
           password = ''#5'', role = ''reader''\<rparr>"

definition gone_id :: objectId where
  "gone_id = ''64b7f0c2a1d3e4f5a6b7c8d8''"

definition absent_id :: objectId where
  "absent_id = ''64b7f0c2a1d3e4f5a6b7c8d9''"

definition hello :: post_doc where
  "hello = \<lparr>post_id = ''p1'', title = ''Hello'', content = ''First post'', author = ''u2'',
             comments = [\<lparr>comment_id = ''c1'', user = ''u3'', comment = ''Nice''\<rparr>,
                         \<lparr>comment_id = ''c2'', user = ''u4'', comment = ''Hm''\<rparr>]\<rparr>"

section \<open>Lookups and writes\<close>

lemma find_SomeD: "find P xs = Some x \<Longrightarrow> x \<in> set xs \<and> P x"
  by (induction xs) (auto split: if_splits)

lemma findById_SomeD: "findById users i = Some u \<Longrightarrow> u \<in> set users \<and> user_id u = i"
  unfolding findById_def by (rule find_SomeD)

lemma findById_save:
  "findById users (user_id d) = Some t \<Longrightarrow> findById (save users d) (user_id d) = Some d"
  unfolding findById_def save_def by (induction users) (auto split: if_splits)

lemma findById_save_other:
  "j \<noteq> user_id d \<Longrightarrow> findById (save users d) j = findById users j"
  unfolding findById_def save_def by (induction users) (auto split: if_splits)

lemma Post_findById_SomeD:
  "Post_findById posts i = Some p \<Longrightarrow> p \<in> set posts \<and> post_id p = i"
  unfolding Post_findById_def by (rule find_SomeD)

lemma Post_findById_save:
  "Post_findById posts (post_id d) = Some p \<Longrightarrow>
   Post_findById (Post_save posts d) (post_id d) = Some d"
  unfolding Post_findById_def Post_save_def by (induction posts) (auto split: if_splits)

lemma Post_findById_save_other:
  "j \<noteq> post_id d \<Longrightarrow> Post_findById (Post_save posts d) j = Post_findById posts j"
  unfolding Post_findById_def Post_save_def by (induction posts) (auto split: if_splits)

lemma Post_findByIdAndDelete_found:
  "Post_findById posts i = Some post \<Longrightarrow>
   Post_findByIdAndDelete posts i = (Some post, remove1 post posts)"
  by (simp add: Post_findByIdAndDelete_def)

lemma comments_id_SomeD: "comments_id cs i = Some c \<Longrightarrow> c \<in> set cs \<and> comment_id c = i"
  unfolding comments_id_def by (rule find_SomeD)

lemma comments_id_deleteOne: "comments_id (deleteOne cs c) (comment_id c) = None"
  unfolding comments_id_def deleteOne_def by (induction cs) auto

lemma js_or_empty: "js_or v d = [] \<Longrightarrow> d = []"
  by (cases v) (auto split: if_splits)

section \<open>Role lifecycle\<close>

text \<open>
  C2, as the claim states it, fails: the handler looks the target up first (its step 1), so a
  call by an actor whose stored role is not admin, on a well-formed target id that is not in
  the collection, is answered 404 \<^verbatim>\<open>User not found\<close> and not 403. Eve is a reader with a token
  that still says admin; the target id is of no document.
\<close>

theorem updateUserRole_revoked_counterexample:
  "findById [eve] (req_id \<lparr>req_id = user_id eve, req_role = ''admin''\<rparr>) = Some eve \<and>
   role eve \<noteq> ''admin'' \<and>
   wellFormedId absent_id \<and> findById [eve] absent_id = None \<and>
   updateUserRole [eve] \<lparr>req_id = user_id eve, req_role = ''admin''\<rparr> absent_id
       (JString ''author'')
     = (Response 404 (Message ''User not found''), [eve]) \<and>
   fst (updateUserRole [eve] \<lparr>req_id = user_id eve, req_role = ''admin''\<rparr> absent_id
          (JString ''author''))
     \<noteq> PrivilegeRevoked"
  by (simp add: updateUserRole_def updateUserRole_with_def findById_def eve_def absent_id_def
        wellFormedId_def hexDigits_def UserNotFound_def PrivilegeRevoked_def)

text \<open>
  C2, amended: a role update on a target that exists, by an actor whose stored role is not
  admin or who, under a well-formed id, is no longer in the collection, is answered
  \<open>PrivilegeRevoked\<close> (403) whatever the requested role and the token's role are, and the
  collection is unchanged. A role update on a well-formed target id of no document is
  answered 404 \<^verbatim>\<open>User not found\<close> whoever the actor is, since the target is looked up before
  the actor is re-verified. (Identifiers that are not well-formed are left out: the source
  answers 500 where the mapper cannot cast one.)
\<close>

theorem updateUserRole_revoked:
  "(findById users i \<noteq> None \<and>
    ((wellFormedId (req_id reqUser) \<and> findById users (req_id reqUser) = None) \<or>
     (\<exists>a. findById users (req_id reqUser) = Some a \<and> role a \<noteq> ''admin'')) \<longrightarrow>
      updateUserRole users reqUser i body_role = (PrivilegeRevoked, users)) \<and>
   (wellFormedId i \<and> findById users i = None \<longrightarrow>
      updateUserRole users reqUser i body_role = (UserNotFound, users))"
  by (auto simp add: updateUserRole_def updateUserRole_with_def)

theorem updateUserRole_revoked_witness:
  "findById [dan, eve] (user_id dan) \<noteq> None \<and>
   (\<exists>a. findById [dan, eve] (user_id eve) = Some a \<and> role a \<noteq> ''admin'') \<and>
   wellFormedId gone_id \<and> findById [dan, eve] gone_id = None \<and>
   wellFormedId absent_id \<and> findById [dan, eve] absent_id = None \<and>
   updateUserRole [dan, eve] \<lparr>req_id = user_id eve, req_role = ''admin''\<rparr> (user_id dan)
       (JString ''reader'')
     = (PrivilegeRevoked, [dan, eve]) \<and>
   updateUserRole [dan, eve] \<lparr>req_id = gone_id, req_role = ''admin''\<rparr> (user_id dan) JNull
     = (PrivilegeRevoked, [dan, eve]) \<and>
   updateUserRole [dan, eve] \<lparr>req_id = user_id eve, req_role = ''admin''\<rparr> absent_id
       (JString ''reader'')
     = (UserNotFound, [dan, eve]) \<and>
   updateUserRole [dan, eve] \<lparr>req_id = user_id dan, req_role = ''admin''\<rparr> absent_id
       (JString ''reader'')
     = (UserNotFound, [dan, eve])"
  using updateUserRole_revoked [of "[dan, eve]" "user_id dan"
      "\<lparr>req_id = user_id eve, req_role = ''admin''\<rparr>" "JString ''reader''"]
    updateUserRole_revoked [of "[dan, eve]" "user_id dan"
      "\<lparr>req_id = gone_id, req_role = ''admin''\<rparr>" JNull]
    updateUserRole_revoked [of "[dan, eve]" absent_id
      "\<lparr>req_id = user_id eve, req_role = ''admin''\<rparr>" "JString ''reader''"]
    updateUserRole_revoked [of "[dan, eve]" absent_id
      "\<lparr>req_id = user_id dan, req_role = ''admin''\<rparr>" "JString ''reader''"]
  by (simp add: findById_def dan_def eve_def gone_id_def absent_id_def wellFormedId_def
        hexDigits_def)

text \<open>
  C3: when the target exists, the actor's stored role is admin and the actor's id is the
  target's id, the role update is answered \<open>SelfModificationForbidden\<close> (403) and the
  collection is unchanged, for every requested role (\<open>body_role\<close> is arbitrary: valid,
  invalid, absent) and every number of admins, one included.
\<close>

theorem updateUserRole_self:
  assumes "findById users i = Some t"
    and "findById users (req_id reqUser) = Some a"
    and "role a = ''admin''"
    and "req_id reqUser = user_id t"
  shows "updateUserRole users reqUser i body_role = (SelfModificationForbidden, users)"
  using assms by (simp add: updateUserRole_def updateUserRole_with_def)

theorem updateUserRole_self_witness:
  "findById [ann] ''u1'' = Some ann \<and> role ann = ''admin'' \<and>
   countDocuments_role [ann] ''admin'' = 1 \<and>
   updateUserRole [ann] \<lparr>req_id = ''u1'', req_role = ''admin''\<rparr> ''u1'' (JString ''reader'')
     = (SelfModificationForbidden, [ann])"
  using updateUserRole_self [of "[ann]" "''u1''" ann "\<lparr>req_id = ''u1'', req_role = ''admin''\<rparr>"
      ann "JString ''reader''"]
  by (simp add: findById_def ann_def countDocuments_role_def)

text \<open>
  C4: a role update that has passed the earlier guards (the target exists, the actor's
  stored role is admin, the actor is not the target, the requested role is valid), on a
  target whose role is admin and with a requested role other than admin, is answered
  \<open>LastAdminProtection\<close> (403) with the collection unchanged when the count of admins the
  handler takes is at most 1; when the count is at least 2 the guard passes and the
  target's role is updated.
\<close>

theorem updateUserRole_last_admin:
  assumes "findById users i = Some t"
    and "findById users (req_id reqUser) = Some a"
    and "role a = ''admin''"
    and "req_id reqUser \<noteq> user_id t"
    and "r \<in> set validRoles"
    and "role t = ''admin''"
    and "r \<noteq> ''admin''"
  shows "(n \<le> 1 \<longrightarrow>
            updateUserRole_with n users reqUser i (JString r) = (LastAdminProtection, users)) \<and>
         (2 \<le> n \<longrightarrow>
            updateUserRole_with n users reqUser i (JString r) =
              (Response 200 (RoleUpdatedJson ''User role updated successfully''
                 (userJson (t\<lparr>role := r\<rparr>))), save users (t\<lparr>role := r\<rparr>)))"
  using assms by (simp add: updateUserRole_with_def Let_def)

theorem updateUserRole_last_admin_witness:
  "findById [ann, cat] ''u3'' = Some cat \<and> findById [ann, cat] ''u1'' = Some ann \<and>
   role ann = ''admin'' \<and> ''u1'' \<noteq> user_id cat \<and> ''reader'' \<in> set validRoles \<and>
   role cat = ''admin'' \<and>
   updateUserRole_with 1 [ann, cat] \<lparr>req_id = ''u1'', req_role = ''admin''\<rparr> ''u3''
       (JString ''reader'')
     = (LastAdminProtection, [ann, cat]) \<and>
   updateUserRole_with 2 [ann, cat] \<lparr>req_id = ''u1'', req_role = ''admin''\<rparr> ''u3''
       (JString ''reader'')
     = (Response 200 (RoleUpdatedJson ''User role updated successfully''
          (UserJson ''u3'' ''Cat'' ''cat@x.org'' ''reader'')), [ann, cat\<lparr>role := ''reader''\<rparr>])"
  using updateUserRole_last_admin [of "[ann, cat]" "''u3''" cat
      "\<lparr>req_id = ''u1'', req_role = ''admin''\<rparr>" ann "''reader''" 1]
    updateUserRole_last_admin [of "[ann, cat]" "''u3''" cat
      "\<lparr>req_id = ''u1'', req_role = ''admin''\<rparr>" ann "''reader''" 2]
  by (simp add: findById_def ann_def cat_def validRoles_def save_def userJson_def)

text \<open>
  The count in C4 is the answer of a query the handler sends after its two lookups. When
  all three read one unchanging collection, the two lookups have found two different
  admins, the count is at least 2, and the denial is never sent.
\<close>

lemma two_admins_found:
  assumes "findById users i = Some t" and "findById users j = Some a"
    and "role t = ''admin''" and "role a = ''admin''" and "j \<noteq> i"
  shows "2 \<le> countDocuments_role users ''admin''"
proof -
  from assms have "t \<in> set (filter (\<lambda>u. role u = ''admin'') users)"
    and "a \<in> set (filter (\<lambda>u. role u = ''admin'') users)" and "t \<noteq> a"
    by (auto dest: findById_SomeD)
  then have "{t, a} \<subseteq> set (filter (\<lambda>u. role u = ''admin'') users)" and "card {t, a} = 2"
    by auto
  then have "2 \<le> card (set (filter (\<lambda>u. role u = ''admin'') users))"
    by (metis List.finite_set card_mono)
  also have "\<dots> \<le> length (filter (\<lambda>u. role u = ''admin'') users)"
    by (rule card_length)
  finally show ?thesis by (simp add: countDocuments_role_def)
qed

lemma updateUserRole_never_last_admin:
  "fst (updateUserRole users reqUser i body_role) \<noteq> LastAdminProtection"
proof -
  have neq: "LastAdminProtection \<noteq> UserNotFound" "LastAdminProtection \<noteq> PrivilegeRevoked"
    "LastAdminProtection \<noteq> SelfModificationForbidden" "LastAdminProtection \<noteq> InvalidRole"
    "LastAdminProtection \<noteq> AdminCeilingReached"
    by (simp_all add: LastAdminProtection_def UserNotFound_def PrivilegeRevoked_def
          SelfModificationForbidden_def InvalidRole_def AdminCeilingReached_def)
  have "\<not> countDocuments_role users ''admin'' \<le> 1"
    if "findById users i = Some t" "findById users (req_id reqUser) = Some a"
      "role t = ''admin''" "role a = ''admin''" "req_id reqUser \<noteq> user_id t" for t a
    using two_admins_found [OF that(1) that(2) that(3) that(4)] that(1,5)
    by (auto dest: findById_SomeD)
  then show ?thesis
    using neq
    by (auto simp add: updateUserRole_def updateUserRole_with_def Let_def LastAdminProtection_def
        split: option.splits jsval.splits)
qed

text \<open>
  C5: a role update that has passed the earlier guards, with requested role admin, on a
  target whose role is not admin: when the collection holds 5 admins or more it is answered
  \<open>AdminCeilingReached\<close> (403) and the collection is unchanged; when it holds 4 or fewer the
  update succeeds and the target's stored role is admin. When the target is admin already,
  the update goes through whatever the count \<open>n\<close> is.
\<close>

theorem updateUserRole_ceiling:
  assumes "findById users i = Some t"
    and "findById users (req_id reqUser) = Some a"
    and "role a = ''admin''"
    and "req_id reqUser \<noteq> user_id t"
  shows "(role t \<noteq> ''admin'' \<and> 5 \<le> countDocuments_role users ''admin'' \<longrightarrow>
            updateUserRole users reqUser i (JString ''admin'') = (AdminCeilingReached, users)) \<and>
         (role t \<noteq> ''admin'' \<and> countDocuments_role users ''admin'' \<le> 4 \<longrightarrow>
            updateUserRole users reqUser i (JString ''admin'') =
              (Response 200 (RoleUpdatedJson ''User role updated successfully''
                 (userJson (t\<lparr>role := ''admin''\<rparr>))), save users (t\<lparr>role := ''admin''\<rparr>)) \<and>
            findById (snd (updateUserRole users reqUser i (JString ''admin''))) i
              = Some (t\<lparr>role := ''admin''\<rparr>)) \<and>
         (role t = ''admin'' \<longrightarrow>
            updateUserRole_with n users reqUser i (JString ''admin'') =
              (Response 200 (RoleUpdatedJson ''User role updated successfully''
                 (userJson (t\<lparr>role := ''admin''\<rparr>))), save users (t\<lparr>role := ''admin''\<rparr>)))"
proof -
  have i: "user_id t = i"
    using assms(1) by (simp add: findById_SomeD)
  have saved: "findById (save users (t\<lparr>role := ''admin''\<rparr>)) i = Some (t\<lparr>role := ''admin''\<rparr>)"
    using findById_save [of users "t\<lparr>role := ''admin''\<rparr>" t] assms(1) i by simp
  show ?thesis
    using assms saved
    by (simp add: updateUserRole_def updateUserRole_with_def Let_def validRoles_def)
qed

theorem updateUserRole_ceiling_witness:
  "updateUserRole (five_admins @ [bob]) \<lparr>req_id = ''a1'', req_role = ''admin''\<rparr> ''u2''
       (JString ''admin'')
     = (AdminCeilingReached, five_admins @ [bob]) \<and>
   updateUserRole [ann, bob] \<lparr>req_id = ''u1'', req_role = ''admin''\<rparr> ''u2'' (JString ''admin'')
     = (Response 200 (RoleUpdatedJson ''User role updated successfully''
          (UserJson ''u2'' ''Bob'' ''bob@x.org'' ''admin'')), [ann, bob\<lparr>role := ''admin''\<rparr>]) \<and>
   updateUserRole_with 7 [ann, cat] \<lparr>req_id = ''u1'', req_role = ''admin''\<rparr> ''u3''
       (JString ''admin'')
     = (Response 200 (RoleUpdatedJson ''User role updated successfully''
          (UserJson ''u3'' ''Cat'' ''cat@x.org'' ''admin'')), [ann, cat])"
  using updateUserRole_ceiling [of "five_admins @ [bob]" "''u2''" bob
      "\<lparr>req_id = ''a1'', req_role = ''admin''\<rparr>" "hd five_admins" 0]
    updateUserRole_ceiling [of "[ann, bob]" "''u2''" bob
      "\<lparr>req_id = ''u1'', req_role = ''admin''\<rparr>" ann 0]
    updateUserRole_ceiling [of "[ann, cat]" "''u3''" cat
      "\<lparr>req_id = ''u1'', req_role = ''admin''\<rparr>" ann 7]
  by (simp add: findById_def ann_def bob_def cat_def five_admins_def save_def userJson_def
        countDocuments_role_def)

section \<open>Registration\<close>

text \<open>
  C6, as the claim states it, fails in its last clause: a user registered after the first one
  receives admin, not reader, when the collection is empty again at that moment. Ann
  registers first and is admin, Ann's account is deleted, Bob registers next and is admin.
\<close>

theorem registerUser_subsequent_counterexample:
  "registerUser (\<lambda>p. ''#'' @ p) [] ''Ann'' ''ann@x.org'' ''pw1'' ''u1''
     = (Response 201 (UserJson ''u1'' ''Ann'' ''ann@x.org'' ''admin''),
        [\<lparr>user_id = ''u1'', name = ''Ann'', email = ''ann@x.org'', password = ''#pw1'',
           role = ''admin''\<rparr>]) \<and>
   deleteUser (snd (registerUser (\<lambda>p. ''#'' @ p) [] ''Ann'' ''ann@x.org'' ''pw1'' ''u1'')) ''u1''
     = (Response 200 (Message ''User deleted successfully''), []) \<and>
   registerUser (\<lambda>p. ''#'' @ p)
       (snd (deleteUser (snd (registerUser (\<lambda>p. ''#'' @ p) [] ''Ann'' ''ann@x.org'' ''pw1'' ''u1''))
          ''u1''))
       ''Bob'' ''bob@x.org'' ''pw2'' ''u2''
     = (Response 201 (UserJson ''u2'' ''Bob'' ''bob@x.org'' ''admin''),
        [\<lparr>user_id = ''u2'', name = ''Bob'', email = ''bob@x.org'', password = ''#pw2'',
           role = ''admin''\<rparr>])"
  by (simp add: registerUser_def deleteUser_def findByIdAndDelete_def findById_def
        findOne_email_def countDocuments_def create_def userJson_def Let_def)

text \<open>
  C6, amended: a registration succeeds when no user has the e-mail address; the user it
  creates is appended to the collection with role admin if the collection holds no user at
  that moment and reader otherwise. So a user registered into an empty collection, as the
  first ever is, receives admin, and a user registered while the collection holds a user
  receives reader.
\<close>

theorem registerUser_role:
  assumes "findOne_email users em = None"
  shows "registerUser hash users nm em pw newId =
           (Response 201 (UserJson newId nm em
              (if countDocuments users = 0 then ''admin'' else ''reader'')),
            users @ [\<lparr>user_id = newId, name = nm, email = em, password = hash pw,
                       role = (if countDocuments users = 0 then ''admin'' else ''reader'')\<rparr>]) \<and>
         (countDocuments users = 0) = (users = [])"
  using assms
  by (simp add: registerUser_def countDocuments_def create_def userJson_def Let_def)

theorem registerUser_role_witness:
  "findOne_email [] ''ann@x.org'' = None \<and> findOne_email [ann] ''bob@x.org'' = None \<and>
   registerUser (\<lambda>p. ''#'' @ p) [] ''Ann'' ''ann@x.org'' ''pw1'' ''u1''
     = (Response 201 (UserJson ''u1'' ''Ann'' ''ann@x.org'' ''admin''),
        [\<lparr>user_id = ''u1'', name = ''Ann'', email = ''ann@x.org'', password = ''#pw1'',
           role = ''admin''\<rparr>]) \<and>
   registerUser (\<lambda>p. ''#'' @ p) [ann] ''Bob'' ''bob@x.org'' ''pw2'' ''u2''
     = (Response 201 (UserJson ''u2'' ''Bob'' ''bob@x.org'' ''reader''),
        [ann, \<lparr>user_id = ''u2'', name = ''Bob'', email = ''bob@x.org'', password = ''#pw2'',
           role = ''reader''\<rparr>])"
  using registerUser_role [of "[]" "''ann@x.org''" "\<lambda>p. ''#'' @ p" "''Ann''" "''pw1''" "''u1''"]
    registerUser_role [of "[ann]" "''bob@x.org''" "\<lambda>p. ''#'' @ p" "''Bob''" "''pw2''" "''u2''"]
  by (simp add: findOne_email_def ann_def countDocuments_def)

section \<open>At least one admin\<close>

text \<open>
  The role update keeps an admin in the collection, whatever count its query answers: when
  it saves, the actor it re-verified is an admin other than the target. Registration only
  appends. The post and comment handlers do not write the user collection.
\<close>

lemma save_keeps: "a \<in> set users \<Longrightarrow> user_id a \<noteq> user_id d \<Longrightarrow> a \<in> set (save users d)"
  unfolding save_def by (induction users) auto

lemma count_role_pos: "a \<in> set users \<Longrightarrow> role a = r \<Longrightarrow> 1 \<le> countDocuments_role users r"
  unfolding countDocuments_role_def by (induction users) auto

lemma updateUserRole_with_keeps_admin:
  assumes "1 \<le> countDocuments_role users ''admin''"
  shows "1 \<le> countDocuments_role (snd (updateUserRole_with n users reqUser i body_role)) ''admin''"
proof (cases "snd (updateUserRole_with n users reqUser i body_role) = users")
  case True
  with assms show ?thesis by simp
next
  case False
  then obtain t a r where t: "findById users i = Some t"
    and a: "findById users (req_id reqUser) = Some a" "role a = ''admin''"
    and ne: "req_id reqUser \<noteq> user_id t"
    and res: "snd (updateUserRole_with n users reqUser i body_role) = save users (t\<lparr>role := r\<rparr>)"
    by (auto simp add: updateUserRole_with_def Let_def split: option.splits jsval.splits if_splits)
  from a ne have "a \<in> set (save users (t\<lparr>role := r\<rparr>))"
    by (auto dest!: findById_SomeD intro: save_keeps)
  then have "1 \<le> countDocuments_role (save users (t\<lparr>role := r\<rparr>)) ''admin''"
    using a(2) by (rule count_role_pos)
  with res show ?thesis by simp
qed

lemma updateUserRole_keeps_admin:
  "1 \<le> countDocuments_role users ''admin'' \<Longrightarrow>
   1 \<le> countDocuments_role (snd (updateUserRole users reqUser i body_role)) ''admin''"
  unfolding updateUserRole_def by (rule updateUserRole_with_keeps_admin)

lemma registerUser_keeps_admin:
  "countDocuments_role users ''admin''
     \<le> countDocuments_role (snd (registerUser hash users nm em pw newId)) ''admin''"
  by (simp add: registerUser_def create_def countDocuments_role_def Let_def split: option.splits)

text \<open>
  C1: the user deletion does not keep the property. \<^verbatim>\<open>deleteUser\<close> removes the document with
  the id of the request and looks at neither its role nor the number of admins, where
  \<^verbatim>\<open>updateUserRole\<close> refuses with \<^verbatim>\<open>System requires at least one admin\<close>. On the collection of
  the admin Ann and the reader Bob, the deletion of Ann's id (the route admits any admin
  token, Ann's own included) is answered 200 and leaves Bob alone: one admin before, none
  after.
\<close>

theorem deleteUser_last_admin:
  "countDocuments_role [ann, bob] ''admin'' = 1 \<and>
   deleteUser [ann, bob] ''u1'' = (Response 200 (Message ''User deleted successfully''), [bob]) \<and>
   countDocuments_role (snd (deleteUser [ann, bob] ''u1'')) ''admin'' = 0"
  by (simp add: deleteUser_def findByIdAndDelete_def findById_def countDocuments_role_def
        ann_def bob_def)

section \<open>Posts and comments\<close>

text \<open>
  C7: on an existing post that holds the comment, the comment deletion is answered 200
  exactly when the actor's role is admin, or the actor is the post's author, or the actor is
  the comment's author. Then the post is saved without the comment. Every other actor is
  answered 403 and the posts are unchanged.
\<close>

theorem deleteComment_allowed_iff:
  assumes "Post_findById posts postId = Some post"
    and "comments_id (comments post) commentId = Some c"
  shows "(fst (deleteComment posts reqUser postId commentId)
            = Response 200 (Message ''Comment deleted successfully''))
           = (req_role reqUser = ''admin'' \<or> author post = req_id reqUser \<or>
              user c = req_id reqUser) \<and>
         (req_role reqUser = ''admin'' \<or> author post = req_id reqUser \<or>
          user c = req_id reqUser \<longrightarrow>
            deleteComment posts reqUser postId commentId
              = (Response 200 (Message ''Comment deleted successfully''),
                 Post_save posts (post\<lparr>comments := deleteOne (comments post) c\<rparr>)) \<and>
            Post_findById (snd (deleteComment posts reqUser postId commentId)) postId
              = Some (post\<lparr>comments := deleteOne (comments post) c\<rparr>) \<and>
            comments_id (deleteOne (comments post) c) commentId = None) \<and>
         (\<not> (req_role reqUser = ''admin'' \<or> author post = req_id reqUser \<or>
              user c = req_id reqUser) \<longrightarrow>
            deleteComment posts reqUser postId commentId
              = (Response 403
                   (Message ''Access denied: You are not authorized to delete this comment''),
                 posts))"
proof -
  have p: "post_id post = postId"
    using assms(1) by (simp add: Post_findById_SomeD)
  have c: "comment_id c = commentId"
    using assms(2) by (simp add: comments_id_SomeD)
  have saved:
    "Post_findById (Post_save posts (post\<lparr>comments := deleteOne (comments post) c\<rparr>)) postId
       = Some (post\<lparr>comments := deleteOne (comments post) c\<rparr>)"
    using Post_findById_save [of posts "post\<lparr>comments := deleteOne (comments post) c\<rparr>" post]
      assms(1) p by simp
  have gone: "comments_id (deleteOne (comments post) c) commentId = None"
    using comments_id_deleteOne [of "comments post" c] c by simp
  show ?thesis
    using assms saved gone by (auto simp add: deleteComment_def Let_def)
qed

theorem deleteComment_allowed_iff_witness:
  "Post_findById [hello] ''p1'' = Some hello \<and>
   comments_id (comments hello) ''c1''
     = Some \<lparr>comment_id = ''c1'', user = ''u3'', comment = ''Nice''\<rparr> \<and>
   deleteComment [hello] \<lparr>req_id = ''u3'', req_role = ''reader''\<rparr> ''p1'' ''c1''
     = (Response 200 (Message ''Comment deleted successfully''),
        [hello\<lparr>comments := [\<lparr>comment_id = ''c2'', user = ''u4'', comment = ''Hm''\<rparr>]\<rparr>]) \<and>
   deleteComment [hello] \<lparr>req_id = ''u2'', req_role = ''author''\<rparr> ''p1'' ''c1''
     = (Response 200 (Message ''Comment deleted successfully''),
        [hello\<lparr>comments := [\<lparr>comment_id = ''c2'', user = ''u4'', comment = ''Hm''\<rparr>]\<rparr>]) \<and>
   deleteComment [hello] \<lparr>req_id = ''u1'', req_role = ''admin''\<rparr> ''p1'' ''c1''
     = (Response 200 (Message ''Comment deleted successfully''),
        [hello\<lparr>comments := [\<lparr>comment_id = ''c2'', user = ''u4'', comment = ''Hm''\<rparr>]\<rparr>]) \<and>
   deleteComment [hello] \<lparr>req_id = ''u4'', req_role = ''author''\<rparr> ''p1'' ''c1''
     = (Response 403 (Message ''Access denied: You are not authorized to delete this comment''),
        [hello])"
  using deleteComment_allowed_iff [of "[hello]" "''p1''" hello "''c1''"
      "\<lparr>comment_id = ''c1'', user = ''u3'', comment = ''Nice''\<rparr>"
      "\<lparr>req_id = ''u3'', req_role = ''reader''\<rparr>"]
    deleteComment_allowed_iff [of "[hello]" "''p1''" hello "''c1''"
      "\<lparr>comment_id = ''c1'', user = ''u3'', comment = ''Nice''\<rparr>"
      "\<lparr>req_id = ''u2'', req_role = ''author''\<rparr>"]
    deleteComment_allowed_iff [of "[hello]" "''p1''" hello "''c1''"
      "\<lparr>comment_id = ''c1'', user = ''u3'', comment = ''Nice''\<rparr>"
      "\<lparr>req_id = ''u1'', req_role = ''admin''\<rparr>"]
    deleteComment_allowed_iff [of "[hello]" "''p1''" hello "''c1''"
      "\<lparr>comment_id = ''c1'', user = ''u3'', comment = ''Nice''\<rparr>"
      "\<lparr>req_id = ''u4'', req_role = ''author''\<rparr>"]
  by (simp add: Post_findById_def comments_id_def hello_def Post_save_def deleteOne_def)

text \<open>
  C8: on an existing post, an actor who is not the post's author and whose role is not admin
  is answered 403 by the update and by the deletion, and the posts are unchanged. For the
  post's author and for an admin the ownership check passes: the update saves the post and
  answers 200 with it, the deletion removes the post and answers 200.
\<close>

theorem post_ownership:
  assumes "Post_findById posts i = Some post"
  shows "(author post \<noteq> req_id reqUser \<and> req_role reqUser \<noteq> ''admin'' \<longrightarrow>
            updatePost posts reqUser i t c = (Response 403 (Message ''Access denied''), posts) \<and>
            deletePost posts reqUser i =
              (Response 403
                 (DeleteDeniedJson ''Access denied: You are not authorized to delete this post''
                    (author post) (req_id reqUser) (req_role reqUser)), posts)) \<and>
         (author post = req_id reqUser \<or> req_role reqUser = ''admin'' \<longrightarrow>
            updatePost posts reqUser i t c =
              (Response 200
                 (PostJson (post\<lparr>title := js_or t (title post), content := js_or c (content post)\<rparr>)),
               Post_save posts
                 (post\<lparr>title := js_or t (title post), content := js_or c (content post)\<rparr>)) \<and>
            deletePost posts reqUser i =
              (Response 200 (Message ''Post deleted successfully''), remove1 post posts))"
  using assms Post_findByIdAndDelete_found [OF assms]
  by (auto simp add: updatePost_def deletePost_def Let_def)

theorem post_ownership_witness:
  "Post_findById [hello] ''p1'' = Some hello \<and>
   updatePost [hello] \<lparr>req_id = ''u5'', req_role = ''author''\<rparr> ''p1'' (JString ''Mine'') JUndefined
     = (Response 403 (Message ''Access denied''), [hello]) \<and>
   deletePost [hello] \<lparr>req_id = ''u5'', req_role = ''author''\<rparr> ''p1''
     = (Response 403
          (DeleteDeniedJson ''Access denied: You are not authorized to delete this post''
             ''u2'' ''u5'' ''author''), [hello]) \<and>
   updatePost [hello] \<lparr>req_id = ''u2'', req_role = ''author''\<rparr> ''p1'' (JString ''Mine'') JUndefined
     = (Response 200 (PostJson (hello\<lparr>title := ''Mine''\<rparr>)), [hello\<lparr>title := ''Mine''\<rparr>]) \<and>
   deletePost [hello] \<lparr>req_id = ''u1'', req_role = ''admin''\<rparr> ''p1''
     = (Response 200 (Message ''Post deleted successfully''), [])"
  using post_ownership [of "[hello]" "''p1''" hello "\<lparr>req_id = ''u5'', req_role = ''author''\<rparr>"
      "JString ''Mine''" JUndefined]
    post_ownership [of "[hello]" "''p1''" hello "\<lparr>req_id = ''u2'', req_role = ''author''\<rparr>"
      "JString ''Mine''" JUndefined]
    post_ownership [of "[hello]" "''p1''" hello "\<lparr>req_id = ''u1'', req_role = ''admin''\<rparr>"
      "JString ''Mine''" JUndefined]
  by (simp add: Post_findById_def hello_def Post_save_def)

text \<open>
  C9: an authorized update of an existing post answers 200 with the stored post. A title
  that is absent, \<^verbatim>\<open>null\<close> or the empty string leaves the stored title as it was, any other
  title is stored; the same holds of the content. So the stored title (content) is empty
  after an update only if it was empty before.
\<close>

theorem updatePost_falsy_fallback:
  assumes "Post_findById posts i = Some post"
    and "author post = req_id reqUser \<or> req_role reqUser = ''admin''"
  shows "(case Post_findById (snd (updatePost posts reqUser i t c)) i of
            None \<Rightarrow> False
          | Some post' \<Rightarrow>
              fst (updatePost posts reqUser i t c) = Response 200 (PostJson post') \<and>
              (t \<in> {JUndefined, JNull, JString []} \<longrightarrow> title post' = title post) \<and>
              (c \<in> {JUndefined, JNull, JString []} \<longrightarrow> content post' = content post) \<and>
              (t \<notin> {JUndefined, JNull, JString []} \<longrightarrow> JString (title post') = t) \<and>
              (c \<notin> {JUndefined, JNull, JString []} \<longrightarrow> JString (content post') = c) \<and>
              (title post' = [] \<longrightarrow> title post = []) \<and>
              (content post' = [] \<longrightarrow> content post = []))"
proof -
  let ?p = "post\<lparr>title := js_or t (title post), content := js_or c (content post)\<rparr>"
  have i: "post_id post = i"
    using assms(1) by (simp add: Post_findById_SomeD)
  have res: "updatePost posts reqUser i t c = (Response 200 (PostJson ?p), Post_save posts ?p)"
    using assms by (auto simp add: updatePost_def Let_def)
  have saved: "Post_findById (Post_save posts ?p) i = Some ?p"
    using Post_findById_save [of posts ?p post] assms(1) i by simp
  have t1: "t \<in> {JUndefined, JNull, JString []} \<longrightarrow> js_or t (title post) = title post"
    by auto
  have c1: "c \<in> {JUndefined, JNull, JString []} \<longrightarrow> js_or c (content post) = content post"
    by auto
  have t2: "t \<notin> {JUndefined, JNull, JString []} \<longrightarrow> JString (js_or t (title post)) = t"
    by (cases t) auto
  have c2: "c \<notin> {JUndefined, JNull, JString []} \<longrightarrow> JString (js_or c (content post)) = c"
    by (cases c) auto
  have t3: "js_or t (title post) = [] \<longrightarrow> title post = []"
    using js_or_empty by blast
  have c3: "js_or c (content post) = [] \<longrightarrow> content post = []"
    using js_or_empty by blast
  show ?thesis
    unfolding res snd_conv fst_conv saved option.case
    using t1 c1 t2 c2 t3 c3 by simp
qed

theorem updatePost_falsy_fallback_witness:
  "Post_findById [hello] ''p1'' = Some hello \<and> author hello = ''u2'' \<and>
   updatePost [hello] \<lparr>req_id = ''u2'', req_role = ''author''\<rparr> ''p1'' (JString []) JNull
     = (Response 200 (PostJson hello), [hello]) \<and>
   updatePost [hello] \<lparr>req_id = ''u2'', req_role = ''author''\<rparr> ''p1'' JUndefined (JString ''Text'')
     = (Response 200 (PostJson (hello\<lparr>content := ''Text''\<rparr>)), [hello\<lparr>content := ''Text''\<rparr>])"
  using updatePost_falsy_fallback [of "[hello]" "''p1''" hello
      "\<lparr>req_id = ''u2'', req_role = ''author''\<rparr>" "JString []" JNull]
    updatePost_falsy_fallback [of "[hello]" "''p1''" hello
      "\<lparr>req_id = ''u2'', req_role = ''author''\<rparr>" JUndefined "JString ''Text''"]
  by (simp add: Post_findById_def hello_def updatePost_def Post_save_def Let_def)

text \<open>
  C10: adding a comment to an existing post answers 201 with the stored post, whose comments
  are the former ones followed by the new comment, which carries the actor's id; the post's
  title, content, author and id are as before, every other post is as before, and no post
  is added or removed.
\<close>

theorem addComment_appends:
  assumes "Post_findById posts i = Some post"
  shows "(case Post_findById (snd (addComment posts reqUser i text newId)) i of
            None \<Rightarrow> False
          | Some post' \<Rightarrow>
              fst (addComment posts reqUser i text newId) = Response 201 (PostJson post') \<and>
              comments post' = comments post @
                [\<lparr>comment_id = newId, user = req_id reqUser, comment = text\<rparr>] \<and>
              title post' = title post \<and> content post' = content post \<and>
              author post' = author post \<and> post_id post' = post_id post) \<and>
         (\<forall>j. j \<noteq> i \<longrightarrow>
            Post_findById (snd (addComment posts reqUser i text newId)) j = Post_findById posts j) \<and>
         length (snd (addComment posts reqUser i text newId)) = length posts"
proof -
  let ?p = "post\<lparr>comments := comments post @
              [\<lparr>comment_id = newId, user = req_id reqUser, comment = text\<rparr>]\<rparr>"
  have i: "post_id post = i"
    using assms by (simp add: Post_findById_SomeD)
  have res: "addComment posts reqUser i text newId = (Response 201 (PostJson ?p), Post_save posts ?p)"
    using assms by (simp add: addComment_def Let_def)
  have saved: "Post_findById (Post_save posts ?p) i = Some ?p"
    using Post_findById_save [of posts ?p post] assms i by simp
  have other: "j \<noteq> i \<Longrightarrow> Post_findById (Post_save posts ?p) j = Post_findById posts j" for j
    using Post_findById_save_other [of j ?p posts] i by simp
  have len: "length (Post_save posts ?p) = length posts"
    by (simp add: Post_save_def)
  show ?thesis
    unfolding res snd_conv fst_conv saved option.case
    using other len by simp
qed

theorem addComment_appends_witness:
  "Post_findById [hello] ''p1'' = Some hello \<and>
   addComment [hello] \<lparr>req_id = ''u7'', req_role = ''reader''\<rparr> ''p1'' ''Thanks'' ''c3''
     = (Response 201
          (PostJson (hello\<lparr>comments :=
             [\<lparr>comment_id = ''c1'', user = ''u3'', comment = ''Nice''\<rparr>,
              \<lparr>comment_id = ''c2'', user = ''u4'', comment = ''Hm''\<rparr>,
              \<lparr>comment_id = ''c3'', user = ''u7'', comment = ''Thanks''\<rparr>]\<rparr>)),
        [hello\<lparr>comments :=
             [\<lparr>comment_id = ''c1'', user = ''u3'', comment = ''Nice''\<rparr>,
              \<lparr>comment_id = ''c2'', user = ''u4'', comment = ''Hm''\<rparr>,
              \<lparr>comment_id = ''c3'', user = ''u7'', comment = ''Thanks''\<rparr>]\<rparr>])"
  using addComment_appends [of "[hello]" "''p1''" hello
      "\<lparr>req_id = ''u7'', req_role = ''reader''\<rparr>" "''Thanks''" "''c3''"]
  by (simp add: Post_findById_def hello_def addComment_def Post_save_def Let_def)

end
